theory Spec2Isabelle
  imports Complex_Main "HOL-Library.Char_ord" "HOL-Library.List_Lexorder"
begin

section \<open>Python strings\<close>

text \<open>
  A Python string is a \<open>string\<close>; one \<open>char\<close> stands for one code point below 256.
  The functions of this section are the Python 3 string methods the emulator calls,
  restricted to that range.
\<close>

definition isspace_char :: "char \<Rightarrow> bool" where
  \<comment> \<open>\<open>str.isspace\<close> on one code point, also what \<open>\s\<close> matches in \<open>re\<close>\<close>
  "isspace_char c \<longleftrightarrow>
     c = CHR 0x09 \<or> c = CHR 0x0A \<or> c = CHR 0x0B \<or> c = CHR 0x0C \<or> c = CHR 0x0D \<or>
     c = CHR 0x1C \<or> c = CHR 0x1D \<or> c = CHR 0x1E \<or> c = CHR 0x1F \<or> c = CHR 0x20 \<or>
     c = CHR 0x85 \<or> c = CHR 0xA0"

definition isdigit_char :: "char \<Rightarrow> bool" where
  \<comment> \<open>the ten decimal digits and the superscripts one, two, three\<close>
  "isdigit_char c \<longleftrightarrow>
     c = CHR ''0'' \<or> c = CHR ''1'' \<or> c = CHR ''2'' \<or> c = CHR ''3'' \<or> c = CHR ''4'' \<or>
     c = CHR ''5'' \<or> c = CHR ''6'' \<or> c = CHR ''7'' \<or> c = CHR ''8'' \<or> c = CHR ''9'' \<or>
     c = CHR 0xB2 \<or> c = CHR 0xB3 \<or> c = CHR 0xB9"

definition isdigit :: "string \<Rightarrow> bool" where
  \<comment> \<open>\<open>str.isdigit\<close>: false on the empty string\<close>
  "isdigit s \<longleftrightarrow> s \<noteq> [] \<and> list_all isdigit_char s"

definition linebreak_char :: "char \<Rightarrow> bool" where
  \<comment> \<open>the line boundaries of \<open>str.splitlines\<close>\<close>
  "linebreak_char c \<longleftrightarrow>
     c = CHR 0x0A \<or> c = CHR 0x0B \<or> c = CHR 0x0C \<or> c = CHR 0x0D \<or>
     c = CHR 0x1C \<or> c = CHR 0x1D \<or> c = CHR 0x1E \<or> c = CHR 0x85"

fun splitlines_from :: "string \<Rightarrow> string \<Rightarrow> string list" where
  "splitlines_from cur [] = (if cur = [] then [] else [cur])"
| "splitlines_from cur (c # cs) =
     (if c = CHR 0x0D \<and> cs \<noteq> [] \<and> hd cs = CHR 0x0A then cur # splitlines_from [] (tl cs)
      else if linebreak_char c then cur # splitlines_from [] cs
      else splitlines_from (cur @ [c]) cs)"

definition splitlines :: "string \<Rightarrow> string list" where
  "splitlines text = splitlines_from [] text"

definition strip :: "string \<Rightarrow> string" where
  "strip s = rev (dropWhile isspace_char (rev (dropWhile isspace_char s)))"

fun join :: "string \<Rightarrow> string list \<Rightarrow> string" where
  "join sep [] = []"
| "join sep [x] = x"
| "join sep (x # y # ys) = x @ sep @ join sep (y # ys)"

definition startswith :: "string \<Rightarrow> string \<Rightarrow> bool" where
  \<comment> \<open>\<open>s.startswith(p)\<close>\<close>
  "startswith s p \<longleftrightarrow> take (length p) s = p"

definition lower_char :: "char \<Rightarrow> char" where
  \<comment> \<open>\<open>str.lower\<close> on one code point: the letters A to Z and the capitals from U+00C0 to
      U+00DE, the multiplication sign apart\<close>
  "lower_char c =
     (if (CHR ''A'' \<le> c \<and> c \<le> CHR ''Z'') \<or> (CHR 0xC0 \<le> c \<and> c \<le> CHR 0xDE \<and> c \<noteq> CHR 0xD7)
      then char_of (of_char c + (32::nat)) else c)"

definition title_char :: "char \<Rightarrow> string" where
  \<comment> \<open>the title case of one code point: the letters a to z and the small letters from
      U+00E0 to U+00FE, the division sign apart; the sharp s becomes \<open>Ss\<close>. The capitals
      of U+00B5 and U+00FF lie beyond code point 255: these two are kept.\<close>
  "title_char c =
     (if (CHR ''a'' \<le> c \<and> c \<le> CHR ''z'') \<or> (CHR 0xE0 \<le> c \<and> c \<le> CHR 0xFE \<and> c \<noteq> CHR 0xF7)
      then [char_of (of_char c - (32::nat))]
      else if c = CHR 0xDF then ''Ss'' else [c])"

definition capitalize :: "string \<Rightarrow> string" where
  \<comment> \<open>\<open>str.capitalize\<close>: the first code point in title case, the rest in lower case\<close>
  "capitalize s = (case s of [] \<Rightarrow> [] | c # cs \<Rightarrow> title_char c @ map lower_char cs)"

definition digit_char :: "nat \<Rightarrow> char" where
  "digit_char d = char_of (48 + d)"

fun str_nat :: "nat \<Rightarrow> string" where
  "str_nat n = (if n < 10 then [digit_char n] else str_nat (n div 10) @ [digit_char (n mod 10)])"

declare str_nat.simps [simp del]

section \<open>Python values\<close>

text \<open>What \<open>json.load\<close> can return, and so what the configuration can hold.\<close>

datatype pyfloat = Finite real | PosInf | NegInf | NaN

datatype pyval =
    PNone
  | PBool bool
  | PInt int
  | PFloat pyfloat
  | PStr string
  | PList "pyval list"
  | PDict "(string \<times> pyval) list"

datatype error = TypeError | ValueError | IndexError | AttributeError

fun truthy :: "pyval \<Rightarrow> bool" where
  "truthy PNone = False"
| "truthy (PBool b) = b"
| "truthy (PInt i) = (i \<noteq> 0)"
| "truthy (PFloat f) = (f \<noteq> Finite 0)"
| "truthy (PStr s) = (s \<noteq> [])"
| "truthy (PList xs) = (xs \<noteq> [])"
| "truthy (PDict kvs) = (kvs \<noteq> [])"

fun eq_False :: "pyval \<Rightarrow> bool" where
  \<comment> \<open>\<open>v == False\<close>: a bool is a number in Python, so zero compares equal to it\<close>
  "eq_False (PBool b) = (\<not> b)"
| "eq_False (PInt i) = (i = 0)"
| "eq_False (PFloat f) = (f = Finite 0)"
| "eq_False _ = False"

section \<open>Rooms, exits and the emulator state\<close>

record exit =
  to :: string
  door :: "string option"
  exitFlags :: "string list"
  doorFlags :: "string list"

text \<open>A dict whose order or emptiness the code looks at is an association list with
  distinct keys; \<open>k in d\<close> is \<open>map_of d k \<noteq> None\<close>.\<close>

record room =
  vnum :: string
  name :: string
  desc :: string
  dynamicDesc :: string
  terrain :: string
  room_note :: string
  exits :: "(string \<times> exit) list"

record world =
  rooms :: "(string \<times> room) list"
  labels :: "(string \<times> string) list"

record state =
  currentRoom :: room
  config :: "string \<rightharpoonup> pyval"
  out :: "string list"

definition config_get :: "(string \<rightharpoonup> pyval) \<Rightarrow> string \<Rightarrow> pyval \<Rightarrow> pyval" where
  \<comment> \<open>\<open>dict.get(key, default)\<close>\<close>
  "config_get c k d = (case c k of None \<Rightarrow> d | Some v \<Rightarrow> v)"

definition output_lines :: "string \<Rightarrow> string list" where
  \<comment> \<open>the generator handed to \<open>page\<close>: the lines of the text that are not blank\<close>
  "output_lines text = filter (\<lambda>line. strip line \<noteq> []) (splitlines text)"

definition "output" :: "state \<Rightarrow> string \<Rightarrow> state" where
  \<comment> \<open>Modelled from the spec: \<open>utils.page\<close> is not in the sources; it emits the lines it
      is given, in order, each as a line of its own.\<close>
  "output s text = s\<lparr>out := out s @ output_lines text\<rparr>"

section \<open>The emulated world\<close>

definition dir_index :: "string list \<Rightarrow> string \<Rightarrow> nat" where
  "dir_index dirs d = length (takeWhile (\<lambda>x. x \<noteq> d) dirs)"

definition sortExits :: "string list \<Rightarrow> (string \<times> exit) list \<Rightarrow> (string \<times> exit) list" where
  \<comment> \<open>Modelled from the spec: \<open>World.sortExits\<close> is not in the sources; it enumerates
      the exits of a room in the canonical order of the directions.\<close>
  "sortExits dirs exs = sort_key (\<lambda>(d, e). dir_index dirs d) exs"

definition has_door :: "exit \<Rightarrow> bool" where
  \<comment> \<open>\<open>exitObj.door or "door" in exitObj.exitFlags\<close>\<close>
  "has_door e \<longleftrightarrow> (door e \<noteq> None \<and> door e \<noteq> Some []) \<or> ''door'' \<in> set (exitFlags e)"

definition door_name :: "exit \<Rightarrow> string" where
  \<comment> \<open>\<open>exitObj.door if exitObj.door else "exit"\<close>\<close>
  "door_name e = (case door e of Some (c # cs) \<Rightarrow> c # cs | _ \<Rightarrow> ''exit'')"

fun look_loop ::
  "(string \<times> room) list \<Rightarrow> (string \<times> exit) list \<Rightarrow> string list \<Rightarrow> string list
     \<Rightarrow> string list \<times> string list" where
  "look_loop rms [] doorList exitList = (doorList, exitList)"
| "look_loop rms ((direction, exitObj) # rest) doorList exitList =
     (let doorList1 = (if has_door exitObj
                       then doorList @ [direction @ '': '' @ door_name exitObj]
                       else doorList);
          direction1 = (if has_door exitObj
                        then (if ''hidden'' \<notin> set (doorFlags exitObj)
                              then ''('' @ direction @ '')''
                              else ''['' @ direction @ '']'')
                        else direction);
          direction2 =
            (if to exitObj = ''death'' then ''!!'' @ direction1 @ ''!!''
             else if map_of rms (to exitObj) = None \<or> to exitObj = ''undefined''
               then ''??'' @ direction1 @ ''??''
             else if terrain (the (map_of rms (to exitObj))) = ''road''
               then ''='' @ direction1 @ ''=''
             else if ''road'' \<in> set (exitFlags exitObj) then ''-'' @ direction1 @ ''-''
             else direction1)
      in look_loop rms rest doorList1 (exitList @ [direction2]))"

definition look_descr :: "state \<Rightarrow> state" where
  \<comment> \<open>lines 43 to 47: name, description unless brief, dynamic description\<close>
  "look_descr s =
     (let r = currentRoom s;
          s1 = output s (name r);
          s2 = (if \<not> truthy (config_get (config s1) ''brief'' (PBool True))
                then output s1 (join '' '' (map strip
                       (filter (\<lambda>line. strip line \<noteq> []) (splitlines (desc r)))))
                else s1)
      in output s2 (dynamicDesc r))"

definition look_exits :: "string list \<Rightarrow> world \<Rightarrow> state \<Rightarrow> state" where
  \<comment> \<open>lines 49 to 81: the doors lines and the exits line\<close>
  "look_exits dirs w s =
     (case look_loop (rooms w) (sortExits dirs (exits (currentRoom s))) [] [] of
        (doorList, exitList) \<Rightarrow>
          (let s1 = (if doorList \<noteq> []
                     then output (output s ''Doors:'') (join ('','' @ [CHR 0x0A]) doorList)
                     else s);
               exitList1 = (if exitList = [] then exitList @ [''None!''] else exitList)
           in output s1 (''Exits: '' @ join '', '' exitList1)))"

definition look_note :: "state \<Rightarrow> state" where
  \<comment> \<open>lines 82 to 86: the note and the vnum\<close>
  "look_note s =
     (let r = currentRoom s;
          s1 = (if room_note r \<noteq> [] then output s (''Note: '' @ room_note r) else s)
      in if truthy (config_get (config s1) ''show_vnum'' (PBool True))
         then output s1 (''Vnum: '' @ vnum r) else s1)"

definition look :: "string list \<Rightarrow> world \<Rightarrow> state \<Rightarrow> state" where
  "look dirs w s = look_note (look_exits dirs w (look_descr s))"

definition longExits_exitLine :: "(string \<times> room) list \<Rightarrow> string \<Rightarrow> exit \<Rightarrow> string list" where
  \<comment> \<open>the list \<open>exitLine\<close> built by one round of the loop of \<open>longExits\<close>\<close>
  "longExits_exitLine rms direction exitObj =
     (let exitLine0 = [capitalize direction @ '':''];
          exitLine1 = (if has_door exitObj
                       then exitLine0 @
                            [(if ''hidden'' \<notin> set (doorFlags exitObj) then ''visible'' else ''hidden'')
                             @ '' ('' @ door_name exitObj @ ''),'']
                       else exitLine0)
      in if isdigit (to exitObj) \<and> map_of rms (to exitObj) \<noteq> None
         then exitLine1 @ [name (the (map_of rms (to exitObj))) @ '', ''
                           @ terrain (the (map_of rms (to exitObj)))]
         else if to exitObj = ''death'' then exitLine1 @ [''death'']
         else exitLine1 @ [''undefined''])"

fun longExits_loop :: "(string \<times> room) list \<Rightarrow> (string \<times> exit) list \<Rightarrow> state \<Rightarrow> state" where
  "longExits_loop rms [] s = s"
| "longExits_loop rms ((direction, exitObj) # rest) s =
     longExits_loop rms rest (output s (join '' '' (longExits_exitLine rms direction exitObj)))"

definition longExits :: "string list \<Rightarrow> world \<Rightarrow> state \<Rightarrow> state" where
  "longExits dirs w s =
     (let s1 = output s ''Exits:''
      in if exits (currentRoom s1) = [] then output s1 ''None!''
         else longExits_loop (rooms w) (sortExits dirs (exits (currentRoom s1))) s1)"

definition move_resolve :: "string list \<Rightarrow> world \<Rightarrow> state \<Rightarrow> string \<Rightarrow> string + string" where
  \<comment> \<open>lines 108 to 118: \<open>Inr\<close> the destination \<open>vnum\<close>, \<open>Inl\<close> the message of an early return\<close>
  "move_resolve dirs w s text =
     (if text \<in> set dirs then
        (case map_of (exits (currentRoom s)) text of
           None \<Rightarrow> Inl ''Alas, you cannot go that way!''
         | Some e \<Rightarrow> Inr (to e))
      else (case map_of (labels w) text of
              Some v \<Rightarrow> Inr v
            | None \<Rightarrow>
                if isdigit text then Inr text
                else Inl (''Error: '' @ text @ '' isn'' @ [CHR 0x27] @ ''t a direction, label, or vnum.'')))"

definition move_to :: "string list \<Rightarrow> world \<Rightarrow> state \<Rightarrow> string \<Rightarrow> state" where
  \<comment> \<open>lines 119 to 127\<close>
  "move_to dirs w s v =
     (if v = ''undefined'' then output s ''Undefined room in that direction!''
      else if v = ''death'' then output s ''Deathtrap in that direction!''
      else (case map_of (rooms w) v of
              None \<Rightarrow> output s (''Error: no rooms in the database with vnum ('' @ v @ '').'')
            | Some r \<Rightarrow>
                look dirs w (s\<lparr>currentRoom := r, config := (config s)(''last_vnum'' \<mapsto> PStr v)\<rparr>)))"

definition move :: "string list \<Rightarrow> world \<Rightarrow> state \<Rightarrow> string \<Rightarrow> state" where
  "move dirs w s text =
     (case move_resolve dirs w s text of
        Inl msg \<Rightarrow> output s msg
      | Inr v \<Rightarrow> move_to dirs w s v)"

definition toggleSetting :: "state \<Rightarrow> string \<Rightarrow> bool \<times> state" where
  \<comment> \<open>the value returned and the state left\<close>
  "toggleSetting s setting =
     (let b = eq_False (config_get (config s) setting (PBool True))
      in (b, s\<lparr>config := (config s)(setting \<mapsto> PBool b)\<rparr>))"

section \<open>Loading the configuration\<close>

text \<open>
  What the emulator can observe of a path: \<open>os.path.exists\<close>, \<open>os.path.isdir\<close>, and the
  outcome of \<open>codecs.open\<close> followed by \<open>json.load\<close>, which is an \<open>IOError\<close> with its
  \<open>strerror\<close> and \<open>filename\<close>, a \<open>ValueError\<close>, or the value parsed.
\<close>

datatype load_result = RaisesIOError string string | RaisesValueError | Loaded pyval

record path_info =
  path_exists :: bool
  path_isdir :: bool
  json_load :: load_result

definition quoted :: "string \<Rightarrow> string" where
  \<comment> \<open>\<open>"'{0}'".format(s)\<close>\<close>
  "quoted s = [CHR 0x27] @ s @ [CHR 0x27]"

definition getConfig :: "(string \<Rightarrow> path_info) \<Rightarrow> state \<Rightarrow> string \<Rightarrow> state \<times> pyval" where
  "getConfig fs s fileName =
     (if path_exists (fs fileName) then
        (if \<not> path_isdir (fs fileName) then
           (case json_load (fs fileName) of
              Loaded v \<Rightarrow> (s, v)
            | RaisesIOError strerror filename \<Rightarrow>
                (output s (strerror @ '': '' @ quoted filename), PDict [])
            | RaisesValueError \<Rightarrow>
                (output s (''Corrupted configuration file: '' @ fileName), PDict []))
         else (output s (''Error: '' @ quoted fileName @ '' is a directory, not a file.''),
               PDict []))
      else (s, PDict []))"

fun update_pair :: "(string \<rightharpoonup> pyval) \<Rightarrow> pyval \<Rightarrow> pyval \<Rightarrow> error + (string \<rightharpoonup> pyval)" where
  \<comment> \<open>\<open>d[k] = v\<close>: a list or dict is not hashable; a key that is not a string is stored
      beside the string keys, where no lookup of the emulator finds it\<close>
  "update_pair c (PStr k) v = Inr (c(k \<mapsto> v))"
| "update_pair c (PList xs) v = Inl TypeError"
| "update_pair c (PDict kvs) v = Inl TypeError"
| "update_pair c _ v = Inr c"

fun update_item :: "(string \<rightharpoonup> pyval) \<Rightarrow> pyval \<Rightarrow> error + (string \<rightharpoonup> pyval)" where
  \<comment> \<open>one element of an iterable given to \<open>dict.update\<close>: a sequence of length two\<close>
  "update_item c (PList [k, v]) = update_pair c k v"
| "update_item c (PList xs) = Inl ValueError"
| "update_item c (PStr [a, b]) = update_pair c (PStr [a]) (PStr [b])"
| "update_item c (PStr cs) = Inl ValueError"
| "update_item c (PDict [(k1, v1), (k2, v2)]) = update_pair c (PStr k1) (PStr k2)"
| "update_item c (PDict kvs) = Inl ValueError"
| "update_item c _ = Inl TypeError"

fun update_items :: "(string \<rightharpoonup> pyval) \<Rightarrow> pyval list \<Rightarrow> error + (string \<rightharpoonup> pyval)" where
  "update_items c [] = Inr c"
| "update_items c (x # xs) =
     (case update_item c x of Inl e \<Rightarrow> Inl e | Inr c1 \<Rightarrow> update_items c1 xs)"

fun update_keys :: "(string \<rightharpoonup> pyval) \<Rightarrow> (string \<times> pyval) list \<Rightarrow> (string \<rightharpoonup> pyval)" where
  "update_keys c [] = c"
| "update_keys c ((k, v) # kvs) = update_keys (c(k \<mapsto> v)) kvs"

fun dict_update :: "(string \<rightharpoonup> pyval) \<Rightarrow> pyval \<Rightarrow> error + (string \<rightharpoonup> pyval)" where
  \<comment> \<open>\<open>dict.update(other)\<close>: the keys of a dict, else the pairs of an iterable\<close>
  "dict_update c (PDict kvs) = Inr (update_keys c kvs)"
| "dict_update c (PList xs) = update_items c xs"
| "dict_update c (PStr cs) = update_items c (map (\<lambda>ch. PStr [ch]) cs)"
| "dict_update c _ = Inl TypeError"

definition loadConfig ::
  "(string \<Rightarrow> path_info) \<Rightarrow> string \<Rightarrow> string \<Rightarrow> state \<Rightarrow> error + state" where
  "loadConfig fs sampleConfigFile configFile s =
     (case getConfig fs s sampleConfigFile of
        (s1, layer1) \<Rightarrow>
          (case dict_update (config s1) layer1 of
             Inl e \<Rightarrow> Inl e
           | Inr c1 \<Rightarrow>
               (case getConfig fs (s1\<lparr>config := c1\<rparr>) configFile of
                  (s2, layer2) \<Rightarrow>
                    (case dict_update (config s2) layer2 of
                       Inl e \<Rightarrow> Inl e
                     | Inr c2 \<Rightarrow> Inr (s2\<lparr>config := c2\<rparr>)))))"

section \<open>Start-up and the command interpreter\<close>

definition smallest_vnum :: "(string \<times> room) list \<Rightarrow> error + string" where
  \<comment> \<open>\<open>sorted(self.rooms)[0]\<close>\<close>
  "smallest_vnum rms = (if rms = [] then Inl IndexError else Inr (hd (sort (map fst rms))))"

fun initial_vnum :: "pyval \<Rightarrow> (string \<times> room) list \<Rightarrow> error + string" where
  \<comment> \<open>lines 33 and 34; the keys of \<open>self.rooms\<close> are strings, and \<open>in\<close> raises on a list
      or dict, which is not hashable\<close>
  "initial_vnum (PStr v) rms = (if map_of rms v = None then smallest_vnum rms else Inr v)"
| "initial_vnum (PList xs) rms = Inl TypeError"
| "initial_vnum (PDict kvs) rms = Inl TypeError"
| "initial_vnum _ rms = smallest_vnum rms"

definition init_banner :: "world \<Rightarrow> state \<Rightarrow> state" where
  \<comment> \<open>lines 22 to 26 of \<open>__init__\<close>; \<open>World.__init__\<close> has loaded \<open>w\<close> and left the
      state \<open>s0\<close>\<close>
  "init_banner w s0 =
     (let s1 = output s0 ''Welcome to Mume Map Emulation!'';
          s2 = output s1 ''Loading the world database.'';
          s3 = output s2 (''Loaded '' @ str_nat (length (rooms w)) @ '' rooms.'')
      in s3\<lparr>config := Map.empty\<rparr>)"

definition EmulatedWorld_init ::
  "string list \<Rightarrow> world \<Rightarrow> (string \<Rightarrow> path_info) \<Rightarrow> string \<Rightarrow> string \<Rightarrow> state
     \<Rightarrow> error + state" where
  \<comment> \<open>\<open>__init__\<close>, lines 27 to 35\<close>
  "EmulatedWorld_init dirs w fs sampleConfigFile configFile s0 =
     (case loadConfig fs sampleConfigFile configFile (init_banner w s0) of
        Inl e \<Rightarrow> Inl e
      | Inr s5 \<Rightarrow>
          (case initial_vnum (config_get (config s5) ''last_vnum'' (PStr ''0'')) (rooms w) of
             Inl e \<Rightarrow> Inl e
           | Inr lastVnum \<Rightarrow> Inr (move dirs w s5 lastVnum)))"

definition command_of :: "string \<Rightarrow> string" where
  \<comment> \<open>the group \<open>command\<close> of the regular expression: the leading run of non-space\<close>
  "command_of userInput = takeWhile (\<lambda>c. \<not> isspace_char c) userInput"

definition arguments_of :: "string \<Rightarrow> string option" where
  \<comment> \<open>the group \<open>arguments\<close>: absent without a space after the command; \<open>.\<close> stops at a newline\<close>
  "arguments_of userInput =
     (case dropWhile (\<lambda>c. \<not> isspace_char c) userInput of
        [] \<Rightarrow> None
      | rest \<Rightarrow> Some (takeWhile (\<lambda>c. c \<noteq> CHR 0x0A) (dropWhile isspace_char rest)))"

definition toggle_command :: "state \<Rightarrow> string \<Rightarrow> string \<Rightarrow> state" where
  \<comment> \<open>the three branches that toggle a setting and report it\<close>
  "toggle_command s setting what =
     (case toggleSetting s setting of
        (status, s1) \<Rightarrow> output s1 (what @ (if status then ''enabled'' else ''disabled'') @ ''.''))"

definition external_commands :: "string list" where
  "external_commands =
     [''path'', ''rlabel'', ''rinfo'',
      ''fdoor'', ''fname'', ''fnote'', ''rnote'', ''ralign'', ''rlight'', ''rportable'',
      ''rridable'', ''ravoid'', ''rterrain'', ''rx'', ''ry'', ''rz'', ''rmobflags'',
      ''rloadflags'', ''exitflags'', ''doorflags'', ''secret'', ''rlink'', ''rdelete'',
      ''savemap'']"

definition parseInput ::
  "string list \<Rightarrow> world \<Rightarrow> (string \<Rightarrow> string option \<Rightarrow> state \<Rightarrow> error + state)
     \<Rightarrow> state \<Rightarrow> string \<Rightarrow> error + state" where
  \<comment> \<open>Modelled from the spec: the path finder, the room and label editors and the map
      saver are not in the sources; \<open>external\<close> stands for the branches that dispatch to
      them with the command and its arguments.\<close>
  "parseInput dirs w external s userInput =
     (let command = command_of userInput;
          arguments = arguments_of userInput;
          direction = concat (filter (\<lambda>dir. startswith dir command) dirs)
      in if command = [] then Inl AttributeError
         else if direction \<noteq> [] then Inr (move dirs w s direction)
         else if startswith ''look'' command then Inr (look dirs w s)
         else if startswith ''exits'' command then Inr (longExits dirs w s)
         else if command = ''vnum'' then Inr (toggle_command s ''show_vnum'' ''Show room vnum '')
         else if command = ''brief'' then Inr (toggle_command s ''brief'' ''Brief mode '')
         else if command = ''terrain''
           then Inr (toggle_command s ''use_terrain_symbols'' ''Terrain symbols in prompt '')
         else if command \<in> set external_commands then external command arguments s
         else if isdigit command \<or> map_of (labels w) command \<noteq> None
           then Inr (move dirs w s command)
         else Inr (output s ''Arglebargle, glop-glyf!?!''))"

section \<open>The exits line as the specification words it\<close>

definition spec_door_wrap :: "string \<Rightarrow> exit \<Rightarrow> string" where
  \<comment> \<open>parentheses for a door that is not hidden, brackets for a hidden one\<close>
  "spec_door_wrap d e =
     (if has_door e
      then (if ''hidden'' \<in> set (doorFlags e) then ''['' @ d @ '']'' else ''('' @ d @ '')'')
      else d)"

definition spec_marker :: "(string \<times> room) list \<Rightarrow> exit \<Rightarrow> string" where
  \<comment> \<open>the one marker of the destination, empty when none of the four cases applies\<close>
  "spec_marker rms e =
     (if to e = ''death'' then ''!!''
      else if to e = ''undefined'' \<or> to e \<notin> set (map fst rms) then ''??''
      else if map_option terrain (map_of rms (to e)) = Some ''road'' then ''=''
      else if ''road'' \<in> set (exitFlags e) then ''-''
      else [])"

definition spec_exit_symbol :: "(string \<times> room) list \<Rightarrow> string \<times> exit \<Rightarrow> string" where
  "spec_exit_symbol rms = (\<lambda>(d, e). spec_marker rms e @ spec_door_wrap d e @ spec_marker rms e)"

definition spec_doors_entry :: "string \<times> exit \<Rightarrow> string" where
  \<comment> \<open>\<open>direction: doorname\<close>, with the literal \<open>exit\<close> for a nameless door\<close>
  "spec_doors_entry = (\<lambda>(d, e).
     d @ '': '' @ (if door e = None \<or> door e = Some [] then ''exit'' else the (door e)))"

definition spec_destination :: "(string \<times> room) list \<Rightarrow> exit \<Rightarrow> string" where
  \<comment> \<open>how the long exits listing describes a destination\<close>
  "spec_destination rms e =
     (case (if isdigit (to e) then map_of rms (to e) else None) of
        Some r \<Rightarrow> name r @ '', '' @ terrain r
      | None \<Rightarrow> if to e = ''death'' then ''death'' else ''undefined'')"

definition spec_door_part :: "exit \<Rightarrow> string" where
  \<comment> \<open>the door of an exit in the long exits listing, empty without a door\<close>
  "spec_door_part e =
     (if has_door e
      then '' '' @ (if ''hidden'' \<in> set (doorFlags e) then ''hidden'' else ''visible'')
           @ '' ('' @ door_name e @ ''),''
      else [])"

section \<open>A small world\<close>

definition compass :: "string list" where
  \<comment> \<open>Modelled from the spec: the constant \<open>DIRECTIONS\<close> of \<open>mapper/constants.py\<close> is not
      in the sources; the six directions the spec names, in the order of the compass.\<close>
  "compass = [''north'', ''east'', ''south'', ''west'', ''up'', ''down'']"

definition plain_exit :: "string \<Rightarrow> exit" where
  "plain_exit v = \<lparr>to = v, door = None, exitFlags = [], doorFlags = []\<rparr>"

definition room1 :: room where
  "room1 = \<lparr>vnum = ''1'', name = ''A cellar'', desc = ''Damp walls.'', dynamicDesc = ''A rat.'',
             terrain = ''indoors'', room_note = [], exits = []\<rparr>"

definition room2 :: room where
  "room2 = \<lparr>vnum = ''2'', name = ''A gatehouse'', desc = ''A low arch.'', dynamicDesc = [],
             terrain = ''city'', room_note = [],
             exits = [(''north'', \<lparr>to = ''3'', door = None, exitFlags = [''door''], doorFlags = []\<rparr>)]\<rparr>"

definition room3 :: room where
  "room3 = \<lparr>vnum = ''3'', name = ''The Great East Road'', desc = ''A wide road.'', dynamicDesc = [],
             terrain = ''road'', room_note = [], exits = [(''south'', plain_exit ''2'')]\<rparr>"

definition room4 :: room where
  "room4 = \<lparr>vnum = ''4'', name = ''A thicket'', desc = ''Brambles.'', dynamicDesc = [],
             terrain = ''forest'', room_note = [],
             exits = [(''north'', \<lparr>to = ''3'', door = Some ''bushes'', exitFlags = [''door''],
                                  doorFlags = [''hidden'']\<rparr>)]\<rparr>"

definition room5 :: room where
  "room5 = \<lparr>vnum = ''5'', name = ''A ledge'', desc = ''A narrow ledge.'', dynamicDesc = [],
             terrain = ''mountains'', room_note = [],
             exits = [(''west'', plain_exit ''1''), (''north'', plain_exit ''death''),
                      (''east'', plain_exit ''undefined''), (''south'', plain_exit ''99'')]\<rparr>"

definition small_world :: world where
  "small_world = \<lparr>rooms = [(''1'', room1), (''2'', room2), (''3'', room3), (''4'', room4),
                            (''5'', room5)],
                   labels = [(''home'', ''1'')]\<rparr>"

definition state_in :: "room \<Rightarrow> state" where
  "state_in r = \<lparr>currentRoom = r, config = Map.empty, out = []\<rparr>"

definition numbered_label_world :: world where
  \<comment> \<open>a label spelled like a room identifier\<close>
  "numbered_label_world = \<lparr>rooms = [(''1'', room1), (''5'', room5)], labels = [(''5'', ''1'')]\<rparr>"

definition absent :: path_info where
  "absent = \<lparr>path_exists = False, path_isdir = False, json_load = RaisesIOError [] []\<rparr>"

definition file_with :: "pyval \<Rightarrow> path_info" where
  "file_with v = \<lparr>path_exists = True, path_isdir = False, json_load = Loaded v\<rparr>"

definition only_user_file :: "pyval \<Rightarrow> string \<Rightarrow> path_info" where
  \<comment> \<open>no sample file; the user file \<open>emulation_config.json\<close> holds the value\<close>
  "only_user_file v path = (if path = ''emulation_config.json'' then file_with v else absent)"

definition extended_directions :: "string list" where
  \<comment> \<open>an enumeration in which two names share a prefix\<close>
  "extended_directions = compass @ [''northeast'']"

definition no_external :: "string \<Rightarrow> string option \<Rightarrow> state \<Rightarrow> error + state" where
  "no_external command arguments s = Inr s"

section \<open>Output of the fixed messages\<close>

lemma output_lines_alas [simp]:
  "output_lines ''Alas, you cannot go that way!'' = [''Alas, you cannot go that way!'']"
  by code_simp

lemma output_lines_undefined [simp]:
  "output_lines ''Undefined room in that direction!'' = [''Undefined room in that direction!'']"
  by code_simp

lemma output_lines_deathtrap [simp]:
  "output_lines ''Deathtrap in that direction!'' = [''Deathtrap in that direction!'']"
  by code_simp

lemma output_lines_exits_none [simp]: "output_lines ''Exits: None!'' = [''Exits: None!'']"
  by code_simp

lemma output_lines_exits [simp]: "output_lines ''Exits:'' = [''Exits:'']"
  by code_simp

lemma output_lines_none [simp]: "output_lines ''None!'' = [''None!'']"
  by code_simp

lemma output_keeps [simp]:
  "currentRoom (output s text) = currentRoom s" "config (output s text) = config s"
  by (simp_all add: output_def)

lemma out_output [simp]: "out (output s text) = out s @ output_lines text"
  by (simp add: output_def)

lemma strip_empty_iff: "strip s = [] \<longleftrightarrow> (\<forall>c\<in>set s. isspace_char c)"
proof -
  have "strip s = [] \<longleftrightarrow> (\<forall>c\<in>set (dropWhile isspace_char s). isspace_char c)"
    by (simp add: strip_def dropWhile_eq_Nil_conv)
  also have "\<dots> \<longleftrightarrow> dropWhile isspace_char s = []"
  proof
    assume a: "\<forall>c\<in>set (dropWhile isspace_char s). isspace_char c"
    show "dropWhile isspace_char s = []"
    proof (rule ccontr)
      assume n: "dropWhile isspace_char s \<noteq> []"
      then have "\<not> isspace_char (hd (dropWhile isspace_char s))" by (rule hd_dropWhile)
      moreover have "hd (dropWhile isspace_char s) \<in> set (dropWhile isspace_char s)"
        using n by simp
      ultimately show False using a by blast
    qed
  qed (auto dest: set_dropWhileD)
  also have "\<dots> \<longleftrightarrow> (\<forall>c\<in>set s. isspace_char c)"
    by (simp add: dropWhile_eq_Nil_conv)
  finally show ?thesis .
qed

lemma splitlines_from_first:
  "x \<in> set cur \<Longrightarrow> \<exists>l ls. splitlines_from cur xs = l # ls \<and> x \<in> set l"
proof (induction xs arbitrary: cur)
  case Nil
  then show ?case by auto
next
  case (Cons c cs)
  have "x \<in> set (cur @ [c])" using Cons.prems by simp
  from Cons.IH [OF this] obtain l ls where
    "splitlines_from (cur @ [c]) cs = l # ls" "x \<in> set l" by blast
  then show ?case using Cons.prems by auto
qed

lemma not_space_E: "\<not> isspace_char CHR ''E''"
  by (simp add: isspace_char_def)

lemma output_lines_error_nonempty:
  "output_lines (''Error: '' @ rest) \<noteq> []"
proof -
  have "splitlines (''Error: '' @ rest) = splitlines_from ''E'' (''rror: '' @ rest)"
    by (simp add: splitlines_def linebreak_char_def)
  moreover obtain l ls where l: "splitlines_from ''E'' (''rror: '' @ rest) = l # ls" "CHR ''E'' \<in> set l"
    using splitlines_from_first [of "CHR ''E''" "''E''" "''rror: '' @ rest"] by auto
  moreover have "strip l \<noteq> []"
    using l(2) not_space_E unfolding strip_empty_iff by blast
  ultimately show ?thesis by (simp add: output_lines_def)
qed

section \<open>Moving\<close>

text \<open>
  C4. For every room \<open>R\<close> and every direction \<open>D\<close> in which \<open>R\<close> has no exit, \<open>move(D)\<close>
  with \<open>R\<close> the current room emits the one line \<open>Alas, you cannot go that way!\<close> and
  changes nothing else: the current room and \<open>last_vnum\<close> stay as they were.
\<close>

theorem move_no_such_exit:
  assumes "D \<in> set dirs" and "currentRoom s = R" and "map_of (exits R) D = None"
  shows "move dirs w s D = s\<lparr>out := out s @ [''Alas, you cannot go that way!'']\<rparr>
         \<and> currentRoom (move dirs w s D) = R
         \<and> config (move dirs w s D) ''last_vnum'' = config s ''last_vnum''"
  using assms by (simp add: move_def move_resolve_def output_def)

theorem move_no_such_exit_witness:
  "''up'' \<in> set compass \<and> map_of (exits room5) ''up'' = None
   \<and> move compass small_world (state_in room5) ''up''
       = (state_in room5)\<lparr>out := [''Alas, you cannot go that way!'']\<rparr>"
  using move_no_such_exit [of "''up''" compass "state_in room5" room5 small_world]
  by (simp add: compass_def room5_def state_in_def plain_exit_def)

text \<open>
  C1. When the token of \<open>move\<close> resolves to a destination, the destination is handled in
  this order: \<open>undefined\<close> and \<open>death\<close> each emit only their message and leave the state
  as it was; an identifier that is no key of the room graph emits the error message (at
  least one line) and leaves the state as it was; otherwise the destination room becomes
  the current room, \<open>last_vnum\<close> is set to its identifier, and the room is rendered by
  \<open>look\<close>.
\<close>

theorem move_destination:
  assumes "move_resolve dirs w s text = Inr v"
  shows "(v = ''undefined'' \<longrightarrow>
            move dirs w s text = s\<lparr>out := out s @ [''Undefined room in that direction!'']\<rparr>)
       \<and> (v \<noteq> ''undefined'' \<and> v = ''death'' \<longrightarrow>
            move dirs w s text = s\<lparr>out := out s @ [''Deathtrap in that direction!'']\<rparr>)
       \<and> (v \<noteq> ''undefined'' \<and> v \<noteq> ''death'' \<and> map_of (rooms w) v = None \<longrightarrow>
            move dirs w s text =
              s\<lparr>out := out s @ output_lines (''Error: no rooms in the database with vnum ('' @ v @ '').'')\<rparr>
            \<and> output_lines (''Error: no rooms in the database with vnum ('' @ v @ '').'') \<noteq> [])
       \<and> (\<forall>r. v \<noteq> ''undefined'' \<and> v \<noteq> ''death'' \<and> map_of (rooms w) v = Some r \<longrightarrow>
            move dirs w s text =
              look dirs w (s\<lparr>currentRoom := r, config := (config s)(''last_vnum'' \<mapsto> PStr v)\<rparr>))"
  using assms output_lines_error_nonempty [of "''no rooms in the database with vnum ('' @ v @ '').''"]
  by (simp add: move_def move_to_def output_def)


theorem move_destination_witness:
  "move_resolve compass small_world (state_in room5) ''north'' = Inr ''death''
   \<and> move compass small_world (state_in room5) ''north''
       = (state_in room5)\<lparr>out := [''Deathtrap in that direction!'']\<rparr>
   \<and> currentRoom (move compass small_world (state_in room5) ''north'') = room5
   \<and> move_resolve compass small_world (state_in room5) ''east'' = Inr ''undefined''
   \<and> move compass small_world (state_in room5) ''east''
       = (state_in room5)\<lparr>out := [''Undefined room in that direction!'']\<rparr>
   \<and> move_resolve compass small_world (state_in room5) ''south'' = Inr ''99''
   \<and> move compass small_world (state_in room5) ''south''
       = (state_in room5)\<lparr>out := [''Error: no rooms in the database with vnum (99).'']\<rparr>
   \<and> move_resolve compass small_world (state_in room5) ''home'' = Inr ''1''
   \<and> move compass small_world (state_in room5) ''home''
       = \<lparr>currentRoom = room1, config = [''last_vnum'' \<mapsto> PStr ''1''],
          out = [''A cellar'', ''A rat.'', ''Exits: None!'', ''Vnum: 1'']\<rparr>"
proof -
  have n: "move_resolve compass small_world (state_in room5) ''north'' = Inr ''death''"
    and e: "move_resolve compass small_world (state_in room5) ''east'' = Inr ''undefined''"
    and s: "move_resolve compass small_world (state_in room5) ''south'' = Inr ''99''"
    and h: "move_resolve compass small_world (state_in room5) ''home'' = Inr ''1''"
    by (simp_all add: move_resolve_def compass_def small_world_def state_in_def room5_def
          plain_exit_def isdigit_def)
  have l1: "output_lines ''Error: no rooms in the database with vnum (99).''
            = [''Error: no rooms in the database with vnum (99).'']" by code_simp
  have l2: "look compass small_world
              \<lparr>currentRoom = room1, config = [''last_vnum'' \<mapsto> PStr ''1''], out = []\<rparr>
            = \<lparr>currentRoom = room1, config = [''last_vnum'' \<mapsto> PStr ''1''],
               out = [''A cellar'', ''A rat.'', ''Exits: None!'', ''Vnum: 1'']\<rparr>"
  proof -
    have a: "output_lines ''A cellar'' = [''A cellar'']" by code_simp
    have b: "output_lines ''A rat.'' = [''A rat.'']" by code_simp
    have c: "output_lines ''Vnum: 1'' = [''Vnum: 1'']" by code_simp
    show ?thesis
      by (simp add: look_def look_descr_def look_exits_def look_note_def sortExits_def
            room1_def config_get_def output_def a b c)
  qed
  show ?thesis
    using move_destination [OF n] move_destination [OF e] move_destination [OF s]
      move_destination [OF h] n e s h l1 l2
    by (simp add: small_world_def state_in_def)
qed

section \<open>Rendering the exits\<close>

lemma look_loop_spec:
  "look_loop rms xs doorList exitList =
     (doorList @ map spec_doors_entry (filter (\<lambda>(d, e). has_door e) xs),
      exitList @ map (spec_exit_symbol rms) xs)"
proof (induction xs arbitrary: doorList exitList)
  case Nil
  show ?case by simp
next
  case (Cons x xs)
  obtain d e where x: "x = (d, e)" by (cases x)
  have entry: "door_name e = (if door e = None \<or> door e = Some [] then ''exit'' else the (door e))"
    by (auto simp: door_name_def split: option.splits list.splits)
  have sym: "(if to e = ''death'' then ''!!'' @ spec_door_wrap d e @ ''!!''
             else if map_of rms (to e) = None \<or> to e = ''undefined''
               then ''??'' @ spec_door_wrap d e @ ''??''
             else if terrain (the (map_of rms (to e))) = ''road''
               then ''='' @ spec_door_wrap d e @ ''=''
             else if ''road'' \<in> set (exitFlags e) then ''-'' @ spec_door_wrap d e @ ''-''
             else spec_door_wrap d e) = spec_exit_symbol rms (d, e)"
    by (auto simp: spec_exit_symbol_def spec_marker_def map_of_eq_None_iff)
  have wrap: "(if has_door e
               then (if ''hidden'' \<notin> set (doorFlags e) then ''('' @ d @ '')'' else ''['' @ d @ '']'')
               else d) = spec_door_wrap d e"
    by (simp add: spec_door_wrap_def)
  show ?case
    unfolding x by (simp add: Let_def Cons.IH wrap sym entry spec_doors_entry_def)
qed

lemma sortExits_Nil: "sortExits dirs [] = []"
  by (simp add: sortExits_def)

lemma sortExits_single: "sortExits dirs [x] = [x]"
  by (simp add: sortExits_def)

lemma look_descr_keeps:
  "currentRoom (look_descr s) = currentRoom s" "config (look_descr s) = config s"
  by (simp_all add: look_descr_def Let_def)

text \<open>
  C2. The room render \<open>look\<close> emits, between the description lines and the note, the
  doors lines and the exits line. Every exit on the exits line is the direction wrapped
  first for its door (parentheses when the door is not hidden, brackets when it is) and
  then by the one marker of its destination: \<open>!!\<close> for \<open>death\<close>, else \<open>??\<close> for
  \<open>undefined\<close> or an unknown room, else \<open>=\<close> for a destination of terrain \<open>road\<close>,
  else \<open>-\<close> for the exit flag \<open>road\<close>, and no marker when none of the four applies; an
  exit with a door also gives the doors entry \<open>direction: doorname\<close>, with \<open>exit\<close> for a
  nameless door. In particular a visible unnamed door to a room of terrain \<open>road\<close>
  renders as \<open>=(direction)=\<close> with the entry \<open>direction: exit\<close>, and a hidden door to
  such a room as \<open>=[direction]=\<close>.
\<close>

theorem look_exit_symbols:
  "look dirs w s =
     look_note
       (let t = look_descr s;
            xs = sortExits dirs (exits (currentRoom s));
            doors = map spec_doors_entry (filter (\<lambda>(d, e). has_door e) xs);
            t1 = (if doors \<noteq> [] then output (output t ''Doors:'') (join ('','' @ [CHR 0x0A]) doors)
                  else t)
        in output t1 (''Exits: '' @
             join '', '' (if xs = [] then [''None!''] else map (spec_exit_symbol (rooms w)) xs)))
   \<and> look_exits dirs w s =
     (let xs = sortExits dirs (exits (currentRoom s));
          doors = map spec_doors_entry (filter (\<lambda>(d, e). has_door e) xs);
          s1 = (if doors \<noteq> [] then output (output s ''Doors:'') (join ('','' @ [CHR 0x0A]) doors)
                else s)
      in output s1 (''Exits: '' @
           join '', '' (if xs = [] then [''None!''] else map (spec_exit_symbol (rooms w)) xs)))
   \<and> (\<forall>d e r. has_door e \<and> (door e = None \<or> door e = Some []) \<and> ''hidden'' \<notin> set (doorFlags e)
          \<and> to e \<noteq> ''death'' \<and> to e \<noteq> ''undefined''
          \<and> map_of rms (to e) = Some r \<and> terrain r = ''road''
        \<longrightarrow> look_loop rms [(d, e)] [] [] = ([d @ '': exit''], [''=('' @ d @ '')='']))
   \<and> (\<forall>d e r. has_door e \<and> ''hidden'' \<in> set (doorFlags e)
          \<and> to e \<noteq> ''death'' \<and> to e \<noteq> ''undefined''
          \<and> map_of rms (to e) = Some r \<and> terrain r = ''road''
        \<longrightarrow> snd (look_loop rms [(d, e)] [] []) = [''=['' @ d @ '']=''])"
proof (intro conjI allI impI)
  show "look dirs w s =
     look_note
       (let t = look_descr s;
            xs = sortExits dirs (exits (currentRoom s));
            doors = map spec_doors_entry (filter (\<lambda>(d, e). has_door e) xs);
            t1 = (if doors \<noteq> [] then output (output t ''Doors:'') (join ('','' @ [CHR 0x0A]) doors)
                  else t)
        in output t1 (''Exits: '' @
             join '', '' (if xs = [] then [''None!''] else map (spec_exit_symbol (rooms w)) xs)))"
    by (simp add: look_def look_exits_def look_loop_spec Let_def look_descr_keeps)
next
  show "look_exits dirs w s =
     (let xs = sortExits dirs (exits (currentRoom s));
          doors = map spec_doors_entry (filter (\<lambda>(d, e). has_door e) xs);
          s1 = (if doors \<noteq> [] then output (output s ''Doors:'') (join ('','' @ [CHR 0x0A]) doors)
                else s)
      in output s1 (''Exits: '' @
           join '', '' (if xs = [] then [''None!''] else map (spec_exit_symbol (rooms w)) xs)))"
    by (simp add: look_exits_def look_loop_spec Let_def)
next
  fix d e r
  assume "has_door e \<and> (door e = None \<or> door e = Some []) \<and> ''hidden'' \<notin> set (doorFlags e)
          \<and> to e \<noteq> ''death'' \<and> to e \<noteq> ''undefined''
          \<and> map_of rms (to e) = Some r \<and> terrain r = ''road''"
  then show "look_loop rms [(d, e)] [] [] = ([d @ '': exit''], [''=('' @ d @ '')=''])"
    by (auto simp: door_name_def)
next
  fix d e r
  assume "has_door e \<and> ''hidden'' \<in> set (doorFlags e)
          \<and> to e \<noteq> ''death'' \<and> to e \<noteq> ''undefined''
          \<and> map_of rms (to e) = Some r \<and> terrain r = ''road''"
  then show "snd (look_loop rms [(d, e)] [] []) = [''=['' @ d @ '']='']"
    by (auto simp: Let_def)
qed

theorem look_exit_symbols_witness:
  "out (look compass small_world (state_in room2))
     = [''A gatehouse'', ''Doors:'', ''north: exit'', ''Exits: =(north)='', ''Vnum: 2'']
   \<and> out (look compass small_world (state_in room4))
     = [''A thicket'', ''Doors:'', ''north: bushes'', ''Exits: =[north]='', ''Vnum: 4'']
   \<and> out (look_exits compass small_world (state_in room2))
     = [''Doors:'', ''north: exit'', ''Exits: =(north)='']
   \<and> look_loop (rooms small_world) (exits room2) [] [] = ([''north: exit''], [''=(north)=''])
   \<and> snd (look_loop (rooms small_world) (exits room4) [] []) = [''=[north]='']
   \<and> out (look_exits compass small_world (state_in room4))
     = [''Doors:'', ''north: bushes'', ''Exits: =[north]='']"
proof -
  have a: "output_lines ''Doors:'' = [''Doors:'']"
    and b: "output_lines ''north: exit'' = [''north: exit'']"
    and c: "output_lines ''Exits: =(north)='' = [''Exits: =(north)='']"
    and d: "output_lines ''north: bushes'' = [''north: bushes'']"
    and e: "output_lines ''Exits: =[north]='' = [''Exits: =[north]='']"
    and f: "output_lines ''A gatehouse'' = [''A gatehouse'']"
    and g: "output_lines ''A thicket'' = [''A thicket'']"
    and h: "output_lines ''Vnum: 2'' = [''Vnum: 2'']"
    and i: "output_lines ''Vnum: 4'' = [''Vnum: 4'']"
    and j: "output_lines [] = []"
    by code_simp+
  show ?thesis
    using look_exit_symbols [of compass small_world "state_in room2" "rooms small_world"]
      look_exit_symbols [of compass small_world "state_in room4" "rooms small_world"]
    by (simp add: f g h i j look_descr_def look_note_def config_get_def small_world_def state_in_def room2_def room3_def room4_def sortExits_single
          has_door_def spec_doors_entry_def spec_exit_symbol_def spec_marker_def
          spec_door_wrap_def a b c d e)
qed

text \<open>
  C5, as amended. When the current room has no exits, the room render emits the exits
  line \<open>Exits: None!\<close> and no doors line; the \<open>exits\<close> command emits the two lines
  \<open>Exits:\<close> and \<open>None!\<close>, and no doors line.
\<close>

theorem exits_none:
  assumes "exits (currentRoom s) = []"
  shows "look_exits dirs w s = s\<lparr>out := out s @ [''Exits: None!'']\<rparr>
       \<and> look dirs w s = look_note ((look_descr s)\<lparr>out := out (look_descr s) @ [''Exits: None!'']\<rparr>)
       \<and> longExits dirs w s = s\<lparr>out := out s @ [''Exits:'', ''None!'']\<rparr>"
proof -
  have 1: "look_exits dirs w t = t\<lparr>out := out t @ [''Exits: None!'']\<rparr>"
    if "exits (currentRoom t) = []" for t
    using that by (simp add: look_exits_def sortExits_Nil output_def)
  have 2: "look_exits dirs w (look_descr s)
           = (look_descr s)\<lparr>out := out (look_descr s) @ [''Exits: None!'']\<rparr>"
    by (rule 1) (simp add: look_descr_keeps assms)
  have 3: "longExits dirs w s = s\<lparr>out := out s @ [''Exits:'', ''None!'']\<rparr>"
    using assms by (simp add: longExits_def output_def)
  show ?thesis using 1 [OF assms] 2 3 by (simp add: look_def)
qed

theorem exits_none_witness:
  "exits (currentRoom (state_in room1)) = []
   \<and> out (look compass small_world (state_in room1)) = [''A cellar'', ''A rat.'', ''Exits: None!'', ''Vnum: 1'']
   \<and> out (longExits compass small_world (state_in room1)) = [''Exits:'', ''None!'']"
proof -
  have a: "output_lines ''A cellar'' = [''A cellar'']"
    and b: "output_lines ''A rat.'' = [''A rat.'']"
    and c: "output_lines ''Vnum: 1'' = [''Vnum: 1'']"
    by code_simp+
  have h: "exits (currentRoom (state_in room1)) = []"
    by (simp add: state_in_def room1_def)
  show ?thesis
    using exits_none [OF h, of compass small_world] h
    by (simp add: look_descr_def look_note_def state_in_def room1_def config_get_def a b c)
qed

text \<open>
  Against C5 as stated: in a room without exits the \<open>exits\<close> command does not emit the
  single line \<open>Exits: None!\<close>.
\<close>

theorem exits_command_counterexample:
  "exits (currentRoom (state_in room1)) = []
   \<and> out (longExits compass small_world (state_in room1)) \<noteq> [''Exits: None!'']"
  by (simp add: longExits_def state_in_def room1_def)

section \<open>The long exits listing\<close>

lemma comma_in_description: "CHR '','' \<in> set (a @ '', '' @ b)"
  by simp

lemma longExits_loop_lines:
  "longExits_loop rms xs s =
     s\<lparr>out := out s @ concat (map (\<lambda>(d, e). output_lines (join '' '' (longExits_exitLine rms d e))) xs)\<rparr>"
proof (induction xs arbitrary: s)
  case Nil
  show ?case by simp
next
  case (Cons x xs)
  obtain d e where x: "x = (d, e)" by (cases x)
  show ?case unfolding x by (simp add: Cons.IH output_def)
qed

lemma exitLine_last: "last (longExits_exitLine rms d e) = spec_destination rms e"
  by (auto simp: longExits_exitLine_def spec_destination_def Let_def)

lemma exitLine_join:
  "join '' '' (longExits_exitLine rms d e)
     = capitalize d @ '':'' @ spec_door_part e @ '' '' @ spec_destination rms e"
  by (auto simp: longExits_exitLine_def spec_destination_def spec_door_part_def Let_def)

text \<open>
  C9. The long exits listing of a room with exits is the header followed, for every exit
  of the current room in canonical order, by its line: the capitalised direction, the door
  if there is one, and last the destination. The destination is described by the name and
  terrain of the destination room when the destination string is all digits and a key of
  the room graph, and otherwise by one of the two words \<open>death\<close> and \<open>undefined\<close>: by
  \<open>death\<close> exactly when the destination is the sentinel \<open>death\<close>, and by \<open>undefined\<close> for
  every other destination, the sentinel \<open>undefined\<close> and the digit strings that are no
  key of the room graph among them.
\<close>

theorem longExits_destination:
  "(exits (currentRoom s) \<noteq> [] \<longrightarrow>
      longExits dirs w s =
        s\<lparr>out := out s @ ''Exits:'' #
             concat (map (\<lambda>(d, e). output_lines
                        (capitalize d @ '':'' @ spec_door_part e @ '' '' @ spec_destination (rooms w) e))
                     (sortExits dirs (exits (currentRoom s))))\<rparr>)
   \<and> join '' '' (longExits_exitLine rms d e)
       = capitalize d @ '':'' @ spec_door_part e @ '' '' @ spec_destination rms e
   \<and> last (longExits_exitLine rms d e) = spec_destination rms e
   \<and> (\<forall>r. isdigit (to e) \<and> map_of rms (to e) = Some r \<longrightarrow>
        spec_destination rms e = name r @ '', '' @ terrain r)
   \<and> (\<not> (isdigit (to e) \<and> map_of rms (to e) \<noteq> None) \<longrightarrow>
        spec_destination rms e = ''death'' \<or> spec_destination rms e = ''undefined'')
   \<and> (spec_destination rms e = ''death'' \<longleftrightarrow> to e = ''death'')
   \<and> (spec_destination rms e = ''undefined'' \<longleftrightarrow>
        \<not> (isdigit (to e) \<and> map_of rms (to e) \<noteq> None) \<and> to e \<noteq> ''death'')"
proof -
  have nd: "\<not> isdigit ''death''" by (simp add: isdigit_def isdigit_char_def)
  have c1: "a @ '', '' @ b \<noteq> ''death''" for a b :: string
  proof
    assume "a @ '', '' @ b = ''death''"
    then have "CHR '','' \<in> set ''death''" using comma_in_description [of a b] by simp
    then show False by simp
  qed
  have c2: "a @ '', '' @ b \<noteq> ''undefined''" for a b :: string
  proof
    assume "a @ '', '' @ b = ''undefined''"
    then have "CHR '','' \<in> set ''undefined''" using comma_in_description [of a b] by simp
    then show False by simp
  qed
  have listing: "exits (currentRoom s) \<noteq> [] \<longrightarrow>
      longExits dirs w s =
        s\<lparr>out := out s @ ''Exits:'' #
             concat (map (\<lambda>(d, e). output_lines
                        (capitalize d @ '':'' @ spec_door_part e @ '' '' @ spec_destination (rooms w) e))
                     (sortExits dirs (exits (currentRoom s))))\<rparr>"
    by (simp add: longExits_def Let_def longExits_loop_lines exitLine_join output_def)
  have rest: "(\<forall>r. isdigit (to e) \<and> map_of rms (to e) = Some r \<longrightarrow>
        spec_destination rms e = name r @ '', '' @ terrain r)
   \<and> (\<not> (isdigit (to e) \<and> map_of rms (to e) \<noteq> None) \<longrightarrow>
        spec_destination rms e = ''death'' \<or> spec_destination rms e = ''undefined'')
   \<and> (spec_destination rms e = ''death'' \<longleftrightarrow> to e = ''death'')
   \<and> (spec_destination rms e = ''undefined'' \<longleftrightarrow>
        \<not> (isdigit (to e) \<and> map_of rms (to e) \<noteq> None) \<and> to e \<noteq> ''death'')"
    using nd c1 c2 by (auto simp: spec_destination_def split: option.splits)
  show ?thesis using listing exitLine_join [of rms d e] exitLine_last [of rms d e] rest by blast
qed


theorem longExits_destination_witness:
  "exits (currentRoom (state_in room2)) \<noteq> []
   \<and> longExits compass small_world (state_in room2)
       = (state_in room2)\<lparr>out := [''Exits:'', ''North: visible (exit), The Great East Road, road'']\<rparr>
   \<and> longExits compass small_world (state_in room4)
       = (state_in room4)\<lparr>out := [''Exits:'', ''North: hidden (bushes), The Great East Road, road'']\<rparr>
   \<and> longExits compass small_world (state_in room5)
       = (state_in room5)\<lparr>out := [''Exits:'', ''North: death'', ''East: undefined'',
            ''South: undefined'', ''West: A cellar, indoors'']\<rparr>
   \<and> spec_destination (rooms small_world) (plain_exit ''1'') = ''A cellar, indoors''
   \<and> spec_destination (rooms small_world) (plain_exit ''death'') = ''death''
   \<and> spec_destination (rooms small_world) (plain_exit ''undefined'') = ''undefined''
   \<and> spec_destination (rooms small_world) (plain_exit ''99'') = ''undefined''"
proof -
  let ?lines = "\<lambda>r. concat (map (\<lambda>(d, e). output_lines
                        (capitalize d @ '':'' @ spec_door_part e @ '' '' @
                         spec_destination (rooms small_world) e))
                     (sortExits compass (exits r)))"
  have n2: "exits (currentRoom (state_in room2)) \<noteq> []"
    and n4: "exits (currentRoom (state_in room4)) \<noteq> []"
    and n5: "exits (currentRoom (state_in room5)) \<noteq> []"
    by (simp_all add: state_in_def room2_def room4_def room5_def)
  have l2: "?lines room2 = [''North: visible (exit), The Great East Road, road'']"
    and l4: "?lines room4 = [''North: hidden (bushes), The Great East Road, road'']"
    and l5: "?lines room5 = [''North: death'', ''East: undefined'', ''South: undefined'',
                             ''West: A cellar, indoors'']"
    by code_simp+
  have i: "isdigit ''1''" "isdigit ''99''" "\<not> isdigit ''undefined''"
    by (simp_all add: isdigit_def isdigit_char_def)
  have c: "currentRoom (state_in r) = r" "out (state_in r) = []" for r
    by (simp_all add: state_in_def)
  show ?thesis
    using longExits_destination [of "state_in room2" compass small_world
        "rooms small_world" "''west''" "plain_exit ''1''"]
      longExits_destination [of "state_in room4" compass small_world
        "rooms small_world" "''north''" "plain_exit ''death''"]
      longExits_destination [of "state_in room5" compass small_world
        "rooms small_world" "''east''" "plain_exit ''undefined''"]
      longExits_destination [of "state_in room5" compass small_world
        "rooms small_world" "''south''" "plain_exit ''99''"]
      n2 n4 n5 l2 l4 l5 i
    by (simp add: c) (simp add: plain_exit_def small_world_def room1_def)
qed

section \<open>Toggling a setting\<close>

text \<open>
  C7, as amended. For every setting name whose value, an absent one read as true, is a
  boolean, \<open>toggleSetting\<close> stores and returns the negation of that value, and a second
  toggle returns the setting to the value it had before the first: the boolean that was
  stored, or true when the setting was absent.
\<close>

theorem toggle_boolean_twice:
  assumes "config_get (config s) setting (PBool True) = PBool b"
  shows "fst (toggleSetting s setting) = (\<not> b)
       \<and> config (snd (toggleSetting s setting)) setting = Some (PBool (\<not> b))
       \<and> fst (toggleSetting (snd (toggleSetting s setting)) setting) = b
       \<and> snd (toggleSetting (snd (toggleSetting s setting)) setting)
           = s\<lparr>config := (config s)(setting \<mapsto> PBool b)\<rparr>
       \<and> config_get (config (snd (toggleSetting (snd (toggleSetting s setting)) setting)))
            setting (PBool True) = PBool b
       \<and> (config s setting = Some (PBool b) \<longrightarrow>
            snd (toggleSetting (snd (toggleSetting s setting)) setting) = s)"
proof -
  have "(config s)(setting \<mapsto> PBool b) = config s" if "config s setting = Some (PBool b)"
    using that by (simp add: fun_upd_idem)
  then show ?thesis
    using assms by (simp add: toggleSetting_def Let_def config_get_def)
qed

theorem toggle_boolean_twice_witness:
  "config_get (config (state_in room1)) ''brief'' (PBool True) = PBool True
   \<and> fst (toggleSetting (state_in room1) ''brief'') = False
   \<and> fst (toggleSetting (snd (toggleSetting (state_in room1) ''brief'')) ''brief'') = True
   \<and> config (snd (toggleSetting (snd (toggleSetting (state_in room1) ''brief'')) ''brief''))
        ''brief'' = Some (PBool True)"
proof -
  have h: "config_get (config (state_in room1)) ''brief'' (PBool True) = PBool True"
    by (simp add: config_get_def state_in_def)
  show ?thesis using toggle_boolean_twice [OF h] h by simp
qed

text \<open>
  Against C7 as stated: a setting that holds the string \<open>yes\<close> holds \<open>True\<close> after two
  toggles, not the value stored before the first.
\<close>

theorem toggle_twice_counterexample:
  "config ((state_in room1)\<lparr>config := [''brief'' \<mapsto> PStr ''yes'']\<rparr>) ''brief'' = Some (PStr ''yes'')
   \<and> config (snd (toggleSetting (snd (toggleSetting
         ((state_in room1)\<lparr>config := [''brief'' \<mapsto> PStr ''yes'']\<rparr>) ''brief'')) ''brief''))
       ''brief'' = Some (PBool True)
   \<and> PBool True \<noteq> PStr ''yes''"
  by (simp add: toggleSetting_def Let_def config_get_def state_in_def)

text \<open>
  C10, as amended. After \<open>toggleSetting\<close> the setting holds a boolean, the one returned,
  whatever it held before; that boolean is true if and only if the value before was
  \<open>False\<close> or a number equal to it, the integer \<open>0\<close> or the float \<open>0.0\<close>.
\<close>

theorem toggle_stores_boolean:
  "config (snd (toggleSetting s setting)) setting = Some (PBool (fst (toggleSetting s setting)))
   \<and> (fst (toggleSetting s setting) \<longleftrightarrow>
        config s setting = Some (PBool False) \<or> config s setting = Some (PInt 0)
        \<or> config s setting = Some (PFloat (Finite 0)))"
proof -
  have "eq_False v \<longleftrightarrow> v = PBool False \<or> v = PInt 0 \<or> v = PFloat (Finite 0)" for v
    by (cases v) auto
  then show ?thesis
    by (auto simp: toggleSetting_def Let_def config_get_def split: option.splits)
qed

text \<open>
  Against C10 as stated: a setting that holds the number \<open>0\<close>, which is not \<open>False\<close>, is
  toggled to \<open>True\<close>.
\<close>

theorem toggle_zero_counterexample:
  "config ((state_in room1)\<lparr>config := [''brief'' \<mapsto> PInt 0]\<rparr>) ''brief'' = Some (PInt 0)
   \<and> PInt 0 \<noteq> PBool False
   \<and> fst (toggleSetting ((state_in room1)\<lparr>config := [''brief'' \<mapsto> PInt 0]\<rparr>) ''brief'') = True"
  by (simp add: toggleSetting_def Let_def config_get_def state_in_def)

theorem toggle_stores_boolean_witness:
  "fst (toggleSetting ((state_in room1)\<lparr>config := [''brief'' \<mapsto> PFloat (Finite 0)]\<rparr>) ''brief'')
   \<and> \<not> fst (toggleSetting ((state_in room1)\<lparr>config := [''brief'' \<mapsto> PStr []]\<rparr>) ''brief'')
   \<and> \<not> fst (toggleSetting (state_in room1) ''brief'')"
  using toggle_stores_boolean [of "(state_in room1)\<lparr>config := [''brief'' \<mapsto> PFloat (Finite 0)]\<rparr>" "''brief''"]
    toggle_stores_boolean [of "(state_in room1)\<lparr>config := [''brief'' \<mapsto> PStr []]\<rparr>" "''brief''"]
    toggle_stores_boolean [of "state_in room1" "''brief''"]
  by (simp add: state_in_def)

section \<open>Loading the configuration layers\<close>

text \<open>
  A path that is missing, a directory, unreadable or not JSON gives the empty layer; two
  layers that are JSON objects are merged, the user layer over the sample layer.
\<close>

lemma getConfig_layer:
  "snd (getConfig fs s f) =
     (if path_exists (fs f) \<and> \<not> path_isdir (fs f)
      then (case json_load (fs f) of Loaded v \<Rightarrow> v | _ \<Rightarrow> PDict [])
      else PDict [])"
  by (simp add: getConfig_def split: load_result.splits)

lemma getConfig_state:
  "currentRoom (fst (getConfig fs s f)) = currentRoom s"
  "config (fst (getConfig fs s f)) = config s"
  by (simp_all add: getConfig_def split: load_result.splits)

lemma update_keys_last:
  "update_keys c kvs k = (case map_of (rev kvs) k of Some v \<Rightarrow> Some v | None \<Rightarrow> c k)"
proof (induction kvs arbitrary: c)
  case Nil
  show ?case by simp
next
  case (Cons kv kvs)
  obtain k' v' where kv: "kv = (k', v')" by (cases kv)
  show ?case
    unfolding kv by (simp add: Cons.IH map_add_def split: option.splits)
qed

lemma loadConfig_objects:
  assumes "snd (getConfig fs s sampleConfigFile) = PDict sample"
    and "snd (getConfig fs s configFile) = PDict user"
  shows "\<exists>s'. loadConfig fs sampleConfigFile configFile s = Inr s'
           \<and> config s' = update_keys (update_keys (config s) sample) user
           \<and> currentRoom s' = currentRoom s"
proof -
  obtain s1 where 1: "getConfig fs s sampleConfigFile = (s1, PDict sample)"
    using assms(1) by (cases "getConfig fs s sampleConfigFile") simp
  have c1: "config s1 = config s" "currentRoom s1 = currentRoom s"
    using getConfig_state [of fs s sampleConfigFile] 1 by simp_all
  let ?t = "s1\<lparr>config := update_keys (config s) sample\<rparr>"
  have "snd (getConfig fs ?t configFile) = PDict user"
    using assms(2) by (simp add: getConfig_layer)
  then obtain s2 where 2: "getConfig fs ?t configFile = (s2, PDict user)"
    by (cases "getConfig fs ?t configFile") simp
  have c2: "config s2 = update_keys (config s) sample" "currentRoom s2 = currentRoom s"
    using getConfig_state [of fs ?t configFile] 2 c1 by simp_all
  show ?thesis
    by (simp add: loadConfig_def 1 2 c1 c2)
qed

lemma loadConfig_override_wins:
  assumes "snd (getConfig fs s sampleConfigFile) = PDict sample"
    and "snd (getConfig fs s configFile) = PDict user"
    and "loadConfig fs sampleConfigFile configFile s = Inr s'"
    and "map_of (rev user) k = Some v"
  shows "config s' k = Some v"
  using loadConfig_objects [OF assms(1,2)] assms(3,4) by (auto simp: update_keys_last)

text \<open>
  C8. Loading is meant never to fail. A user file that holds the JSON value \<open>null\<close> is
  parsed without error, \<open>dict.update\<close> then raises \<open>TypeError\<close> outside the \<open>try\<close>, and
  neither \<open>loadConfig\<close> nor \<open>__init__\<close> returns.
\<close>

theorem loadConfig_null_file:
  "path_exists (only_user_file PNone ''emulation_config.json'')
   \<and> json_load (only_user_file PNone ''emulation_config.json'') = Loaded PNone
   \<and> loadConfig (only_user_file PNone) ''emulation_config.json.sample'' ''emulation_config.json''
        (init_banner small_world (state_in room1)) = Inl TypeError
   \<and> EmulatedWorld_init compass small_world (only_user_file PNone)
        ''emulation_config.json.sample'' ''emulation_config.json'' (state_in room1) = Inl TypeError"
  by (simp add: EmulatedWorld_init_def loadConfig_def getConfig_def only_user_file_def
        file_with_def absent_def)

section \<open>Abbreviated directions\<close>









text \<open>
  The join is a direction only because the first letters of the six directions differ. In
  an enumeration where \<open>north\<close> and \<open>northeast\<close> both start with the command, the
  interpreter would call \<open>move\<close> with \<open>northnortheast\<close>.
\<close>

lemma parseInput_join_of_two:
  "command_of ''n'' = ''n'' \<and> startswith ''north'' ''n'' \<and> ''north'' \<in> set extended_directions
   \<and> parseInput extended_directions small_world no_external (state_in room5) ''n''
       = Inr (move extended_directions small_world (state_in room5) ''northnortheast'')
   \<and> move extended_directions small_world (state_in room5) ''northnortheast''
       = (state_in room5)\<lparr>out :=
           [''Error: northnortheast isn'' @ [CHR 0x27] @ ''t a direction, label, or vnum.'']\<rparr>
   \<and> move extended_directions small_world (state_in room5) ''north''
       = (state_in room5)\<lparr>out := [''Deathtrap in that direction!'']\<rparr>"
proof -
  have c: "command_of ''n'' = ''n''" by (simp add: command_of_def isspace_char_def)
  have l: "output_lines (''Error: northnortheast isn'' @ [CHR 0x27] @ ''t a direction, label, or vnum.'')
           = [''Error: northnortheast isn'' @ [CHR 0x27] @ ''t a direction, label, or vnum.'']"
    by code_simp
  have d: "concat (filter (\<lambda>dir. startswith dir ''n'') extended_directions) = ''northnortheast''"
    by (simp add: extended_directions_def compass_def startswith_def)
  have m: "move extended_directions small_world (state_in room5) ''northnortheast''
       = (state_in room5)\<lparr>out :=
           [''Error: northnortheast isn'' @ [CHR 0x27] @ ''t a direction, label, or vnum.'']\<rparr>"
    using l by (simp add: move_def move_resolve_def extended_directions_def compass_def
          small_world_def isdigit_def isdigit_char_def output_def state_in_def)
  have n: "move extended_directions small_world (state_in room5) ''north''
       = (state_in room5)\<lparr>out := [''Deathtrap in that direction!'']\<rparr>"
    by (simp add: move_def move_resolve_def move_to_def extended_directions_def compass_def
          small_world_def output_def state_in_def room5_def plain_exit_def)
  have p: "parseInput extended_directions small_world no_external (state_in room5) ''n''
       = Inr (move extended_directions small_world (state_in room5) ''northnortheast'')"
    by (simp add: parseInput_def Let_def c d)
  show ?thesis
    using c m n p by (simp add: startswith_def extended_directions_def compass_def)
qed

section \<open>Start-up\<close>

lemma smallest_vnum_min:
  assumes "rms \<noteq> []"
  shows "\<exists>v. smallest_vnum rms = Inr v \<and> v \<in> fst ` set rms \<and> (\<forall>k\<in>fst ` set rms. v \<le> k)"
proof -
  let ?ks = "sort (map fst rms)"
  have ne: "?ks \<noteq> []" using assms by (metis length_sort length_map length_0_conv)
  have s: "sorted ?ks" by simp
  have m: "set ?ks = fst ` set rms" by simp
  have "hd ?ks \<in> set ?ks" using ne by (rule hd_in_set)
  then have 1: "hd ?ks \<in> fst ` set rms" unfolding m .
  have "\<forall>k\<in>set ?ks. hd ?ks \<le> k"
    using s ne by (cases ?ks) auto
  then have 2: "\<forall>k\<in>fst ` set rms. hd ?ks \<le> k" unfolding m .
  show ?thesis using assms 1 2 by (simp add: smallest_vnum_def)
qed

lemma zero_least_digits:
  assumes "isdigit k"
  shows "''0'' \<le> k"
proof -
  obtain c cs where k: "k = c # cs" using assms by (cases k) (auto simp: isdigit_def)
  have "isdigit_char c" using assms k by (simp add: isdigit_def)
  then have "CHR ''0'' \<le> c" by (auto simp: isdigit_char_def)
  then have "CHR ''0'' < c \<or> CHR ''0'' = c" by (rule le_imp_less_or_eq)
  moreover have "[] \<le> cs" by (rule Nil_le_Cons)
  ultimately show ?thesis unfolding k Cons_le_Cons by blast
qed

lemma isdigit_not_sentinel: "isdigit v \<Longrightarrow> v \<noteq> ''undefined'' \<and> v \<noteq> ''death''"
  by (auto simp: isdigit_def isdigit_char_def)

lemma move_to_room:
  assumes "isdigit v" and "v \<notin> set dirs" and "map_of (labels w) v = None"
    and "map_of (rooms w) v = Some r"
  shows "move dirs w s v =
           look dirs w (s\<lparr>currentRoom := r, config := (config s)(''last_vnum'' \<mapsto> PStr v)\<rparr>)"
  using assms isdigit_not_sentinel [OF assms(1)]
  by (simp add: move_def move_resolve_def move_to_def)

text \<open>
  Start-up reaches the room it aims at when \<open>move\<close> takes the identifier as a vnum: when
  the configuration loads, the persisted \<open>last_vnum\<close> is not a list or an object, the
  room graph is not empty, and every room identifier is a digit string that is neither a
  direction nor a label.
\<close>

lemma init_room:
  assumes load: "loadConfig fs sampleConfigFile configFile (init_banner w s0) = Inr s5"
    and ne: "rooms w \<noteq> []"
    and wf: "\<forall>k\<in>fst ` set (rooms w). isdigit k \<and> k \<notin> set dirs \<and> map_of (labels w) k = None"
    and hashable: "\<forall>xs. config s5 ''last_vnum'' \<noteq> Some (PList xs)"
      "\<forall>kvs. config s5 ''last_vnum'' \<noteq> Some (PDict kvs)"
  shows "\<exists>v r. map_of (rooms w) v = Some r
           \<and> (\<forall>u. config s5 ''last_vnum'' = Some (PStr u) \<and> u \<in> fst ` set (rooms w) \<longrightarrow> v = u)
           \<and> ((\<forall>u. config s5 ''last_vnum'' = Some (PStr u) \<longrightarrow> u \<notin> fst ` set (rooms w))
                \<longrightarrow> (\<forall>k\<in>fst ` set (rooms w). v \<le> k))
           \<and> EmulatedWorld_init dirs w fs sampleConfigFile configFile s0 =
               Inr (look dirs w
                     (s5\<lparr>currentRoom := r, config := (config s5)(''last_vnum'' \<mapsto> PStr v)\<rparr>))"
proof -
  let ?L = "config_get (config s5) ''last_vnum'' (PStr ''0'')"
  let ?K = "fst ` set (rooms w)"
  obtain m where m: "smallest_vnum (rooms w) = Inr m" "m \<in> ?K" "\<forall>k\<in>?K. m \<le> k"
    using smallest_vnum_min [OF ne] by blast
  have inK: "u \<in> ?K \<longleftrightarrow> map_of (rooms w) u \<noteq> None" for u
    by (simp add: map_of_eq_None_iff)
  have "\<exists>v. initial_vnum ?L (rooms w) = Inr v \<and> v \<in> ?K
          \<and> (\<forall>u. config s5 ''last_vnum'' = Some (PStr u) \<and> u \<in> ?K \<longrightarrow> v = u)
          \<and> ((\<forall>u. config s5 ''last_vnum'' = Some (PStr u) \<longrightarrow> u \<notin> ?K) \<longrightarrow> (\<forall>k\<in>?K. v \<le> k))"
  proof (cases "config s5 ''last_vnum''")
    case None
    then have L: "?L = PStr ''0''" by (simp add: config_get_def)
    show ?thesis
    proof (cases "''0'' \<in> ?K")
      case True
      have "\<forall>k\<in>?K. ''0'' \<le> k" using wf zero_least_digits by blast
      then show ?thesis using True None L inK [of "''0''"] by auto
    next
      case False
      then show ?thesis using None L m inK [of "''0''"] by auto
    qed
  next
    case (Some x)
    then have L: "?L = x" by (simp add: config_get_def)
    show ?thesis
    proof (cases x)
      case (PStr u)
      show ?thesis
      proof (cases "u \<in> ?K")
        case True
        then show ?thesis using Some L PStr inK [of u] by auto
      next
        case False
        then show ?thesis using Some L PStr m inK [of u] by auto
      qed
    next
      case (PList xs)
      then show ?thesis using hashable(1) Some by simp
    next
      case (PDict kvs)
      then show ?thesis using hashable(2) Some by simp
    qed (use Some L m in auto)
  qed
  then obtain v where v: "initial_vnum ?L (rooms w) = Inr v" "v \<in> ?K"
    "\<forall>u. config s5 ''last_vnum'' = Some (PStr u) \<and> u \<in> ?K \<longrightarrow> v = u"
    "(\<forall>u. config s5 ''last_vnum'' = Some (PStr u) \<longrightarrow> u \<notin> ?K) \<longrightarrow> (\<forall>k\<in>?K. v \<le> k)"
    by blast
  obtain r where r: "map_of (rooms w) v = Some r" using v(2) inK [of v] by auto
  have "isdigit v" "v \<notin> set dirs" "map_of (labels w) v = None" using wf v(2) by auto
  then have mv: "move dirs w s5 v =
      look dirs w (s5\<lparr>currentRoom := r, config := (config s5)(''last_vnum'' \<mapsto> PStr v)\<rparr>)"
    using r by (rule move_to_room)
  have "EmulatedWorld_init dirs w fs sampleConfigFile configFile s0 =
      Inr (look dirs w (s5\<lparr>currentRoom := r, config := (config s5)(''last_vnum'' \<mapsto> PStr v)\<rparr>))"
    by (simp add: EmulatedWorld_init_def load v(1) mv)
  then show ?thesis using r v(3,4) by blast
qed


lemma banner_lines:
  "output_lines ''Welcome to Mume Map Emulation!'' = [''Welcome to Mume Map Emulation!'']"
  "output_lines ''Loading the world database.'' = [''Loading the world database.'']"
  "str_nat (length (rooms small_world)) = ''5''"
  "output_lines ''Loaded 5 rooms.'' = [''Loaded 5 rooms.'']"
  "str_nat (length (rooms numbered_label_world)) = ''2''"
  "output_lines ''Loaded 2 rooms.'' = [''Loaded 2 rooms.'']"
  by code_simp+

lemma look_room1:
  "look dirs w \<lparr>currentRoom = room1, config = [''last_vnum'' \<mapsto> PStr ''1''], out = ls\<rparr>
     = \<lparr>currentRoom = room1, config = [''last_vnum'' \<mapsto> PStr ''1''],
        out = ls @ [''A cellar'', ''A rat.'', ''Exits: None!'', ''Vnum: 1'']\<rparr>"
proof -
  have a: "output_lines ''A cellar'' = [''A cellar'']"
    and b: "output_lines ''A rat.'' = [''A rat.'']"
    and c: "output_lines ''Vnum: 1'' = [''Vnum: 1'']"
    by code_simp+
  show ?thesis
    by (simp add: look_def look_descr_def look_exits_def look_note_def sortExits_def
          room1_def config_get_def output_def a b c)
qed

lemma init_room_small_world:
  "rooms small_world \<noteq> []
   \<and> list_all (\<lambda>k. isdigit k \<and> k \<notin> set compass \<and> map_of (labels small_world) k = None)
        (map fst (rooms small_world))
   \<and> loadConfig (\<lambda>p. absent) ''emulation_config.json.sample'' ''emulation_config.json''
        (init_banner small_world (state_in room5)) = Inr (init_banner small_world (state_in room5))
   \<and> (\<exists>v r. map_of (rooms small_world) v = Some r
          \<and> (\<forall>k\<in>fst ` set (rooms small_world). v \<le> k)
          \<and> EmulatedWorld_init compass small_world (\<lambda>p. absent)
               ''emulation_config.json.sample'' ''emulation_config.json'' (state_in room5) =
              Inr (look compass small_world
                    ((init_banner small_world (state_in room5))
                       \<lparr>currentRoom := r, config := [''last_vnum'' \<mapsto> PStr v]\<rparr>)))
   \<and> EmulatedWorld_init compass small_world (\<lambda>p. absent)
        ''emulation_config.json.sample'' ''emulation_config.json'' (state_in room5) =
       Inr \<lparr>currentRoom = room1, config = [''last_vnum'' \<mapsto> PStr ''1''],
            out = [''Welcome to Mume Map Emulation!'', ''Loading the world database.'',
                   ''Loaded 5 rooms.'', ''A cellar'', ''A rat.'', ''Exits: None!'', ''Vnum: 1'']\<rparr>"
proof -
  let ?b = "init_banner small_world (state_in room5)"
  have ne: "rooms small_world \<noteq> []" by (simp add: small_world_def)
  have wf: "\<forall>k\<in>fst ` set (rooms small_world).
         isdigit k \<and> k \<notin> set compass \<and> map_of (labels small_world) k = None"
    by (simp add: small_world_def isdigit_def isdigit_char_def compass_def)
  have b: "?b = \<lparr>currentRoom = room5, config = Map.empty,
                 out = [''Welcome to Mume Map Emulation!'', ''Loading the world database.'',
                        ''Loaded 5 rooms.'']\<rparr>"
    by (simp add: init_banner_def Let_def output_def state_in_def banner_lines)
  have load: "loadConfig (\<lambda>p. absent) ''emulation_config.json.sample'' ''emulation_config.json'' ?b
              = Inr ?b"
    unfolding b by (simp add: loadConfig_def getConfig_def absent_def)
  have h: "\<forall>xs. config ?b ''last_vnum'' \<noteq> Some (PList xs)"
    "\<forall>kvs. config ?b ''last_vnum'' \<noteq> Some (PDict kvs)"
    unfolding b by simp_all
  have iv: "initial_vnum (PStr ''0'') (rooms small_world) = Inr ''1''"
    by (simp add: smallest_vnum_def small_world_def)
  have mv: "move compass small_world
              \<lparr>currentRoom = room5, config = Map.empty,
                 out = [''Welcome to Mume Map Emulation!'', ''Loading the world database.'',
                        ''Loaded 5 rooms.'']\<rparr> ''1''
            = \<lparr>currentRoom = room1, config = [''last_vnum'' \<mapsto> PStr ''1''],
               out = [''Welcome to Mume Map Emulation!'', ''Loading the world database.'',
                      ''Loaded 5 rooms.'', ''A cellar'', ''A rat.'', ''Exits: None!'', ''Vnum: 1'']\<rparr>"
    by (simp add: move_def move_resolve_def move_to_def compass_def isdigit_def isdigit_char_def
          small_world_def look_room1)
  have e: "EmulatedWorld_init compass small_world (\<lambda>p. absent)
        ''emulation_config.json.sample'' ''emulation_config.json'' (state_in room5) =
       Inr \<lparr>currentRoom = room1, config = [''last_vnum'' \<mapsto> PStr ''1''],
            out = [''Welcome to Mume Map Emulation!'', ''Loading the world database.'',
                   ''Loaded 5 rooms.'', ''A cellar'', ''A rat.'', ''Exits: None!'', ''Vnum: 1'']\<rparr>"
    using load iv mv unfolding b by (simp add: EmulatedWorld_init_def b config_get_def)
  have c: "config ?b = Map.empty" unfolding b by simp
  have wl: "list_all (\<lambda>k. isdigit k \<and> k \<notin> set compass \<and> map_of (labels small_world) k = None)
        (map fst (rooms small_world))"
    using wf by (simp add: list_all_iff)
  show ?thesis
    using init_room [OF load ne wf h] ne wl load e c by simp
qed

text \<open>
  C6. Start-up is meant to make current the room whose identifier is the persisted
  \<open>last_vnum\<close> when that identifier is a key of the room graph. It places the user with
  \<open>move\<close>, which resolves a label before it takes a token as a vnum: with a label spelled
  \<open>5\<close> that names room \<open>1\<close> and a persisted \<open>last_vnum\<close> of \<open>5\<close>, a key of the room
  graph, start-up makes room \<open>1\<close> current, not room \<open>5\<close>, and stores \<open>1\<close>.
\<close>

theorem init_label_shadows_vnum:
  "map_of (rooms numbered_label_world) ''5'' = Some room5
   \<and> room1 \<noteq> room5
   \<and> EmulatedWorld_init compass numbered_label_world
        (only_user_file (PDict [(''last_vnum'', PStr ''5'')]))
        ''emulation_config.json.sample'' ''emulation_config.json'' (state_in room1) =
       Inr \<lparr>currentRoom = room1, config = [''last_vnum'' \<mapsto> PStr ''1''],
            out = [''Welcome to Mume Map Emulation!'', ''Loading the world database.'',
                   ''Loaded 2 rooms.'', ''A cellar'', ''A rat.'', ''Exits: None!'', ''Vnum: 1'']\<rparr>"
proof -
  let ?s = "\<lparr>currentRoom = room1, config = Map.empty,
             out = [''Welcome to Mume Map Emulation!'', ''Loading the world database.'',
                    ''Loaded 2 rooms.'']\<rparr>"
  have b: "init_banner numbered_label_world (state_in room1) = ?s"
    by (simp add: init_banner_def Let_def output_def state_in_def banner_lines)
  have load: "loadConfig (only_user_file (PDict [(''last_vnum'', PStr ''5'')]))
                ''emulation_config.json.sample'' ''emulation_config.json'' ?s
              = Inr (?s\<lparr>config := [''last_vnum'' \<mapsto> PStr ''5'']\<rparr>)"
    by (simp add: loadConfig_def getConfig_def only_user_file_def file_with_def absent_def)
  have iv: "initial_vnum (PStr ''5'') (rooms numbered_label_world) = Inr ''5''"
    by (simp add: numbered_label_world_def)
  have mv: "move compass numbered_label_world (?s\<lparr>config := [''last_vnum'' \<mapsto> PStr ''5'']\<rparr>) ''5''
            = \<lparr>currentRoom = room1, config = [''last_vnum'' \<mapsto> PStr ''1''],
               out = [''Welcome to Mume Map Emulation!'', ''Loading the world database.'',
                      ''Loaded 2 rooms.'', ''A cellar'', ''A rat.'', ''Exits: None!'', ''Vnum: 1'']\<rparr>"
    by (simp add: move_def move_resolve_def move_to_def compass_def
          numbered_label_world_def look_room1)
  have r: "room1 \<noteq> room5" by (simp add: room1_def room5_def)
  show ?thesis
    using r iv mv by (simp add: EmulatedWorld_init_def b load config_get_def)
      (simp add: numbered_label_world_def)
qed

end
